theory Spec2Isabelle
  imports Main "HOL-Library.Word"
begin

section \<open>Python values\<close>

text \<open>
  A Python \<open>str\<close> is a sequence of Unicode code points, so it is modelled as a list of
  code points and not as a list of bytes: \<open>str.strip\<close> works on code points. A Python
  \<open>float\<close> is an IEEE-754 double; the program never computes with it, so it is kept as
  its 64-bit pattern.
\<close>

type_synonym pystr = "nat list"

type_synonym pyfloat = "64 word"

definition ascii :: "string \<Rightarrow> pystr" where
  "ascii s = map of_char s"

text \<open>
  The objects of the program: what a dict or list literal builds and what the JSON
  decoder returns. A dict keeps its items in insertion order; lookup is by key.
\<close>

datatype pyval =
    PNone
  | PBool bool
  | PInt int
  | PFloat pyfloat
  | PStr pystr
  | PList "pyval list"
  | PDict "(pystr \<times> pyval) list"

text \<open>
  The exceptions the program can meet. \<open>HTTPError\<close> carries \<open>response.status_code\<close> and
  \<open>response.text\<close>, the two attributes \<open>main\<close> reads from it; \<open>RequestException\<close>,
  \<open>KeyError\<close> and \<open>IndexError\<close> carry what \<open>str(exc)\<close> gives. \<open>TypeError\<close>,
  \<open>AttributeError\<close>, \<open>UnicodeEncodeError\<close> and \<open>OtherException\<close> (any further
  class) have no handler in \<open>main\<close>.
\<close>

datatype pyexc =
    HTTPError nat pystr
  | RequestException pystr
  | KeyError pystr
  | IndexError pystr
  | TypeError
  | AttributeError
  | UnicodeEncodeError
  | OtherException pystr

subsection \<open>Whitespace and \<open>str.strip\<close>\<close>

text \<open>The code points for which \<open>str.isspace\<close> holds.\<close>

definition isspace :: "nat \<Rightarrow> bool" where
  "isspace c \<longleftrightarrow>
     (9 \<le> c \<and> c \<le> 13) \<or> (28 \<le> c \<and> c \<le> 32) \<or> c = 133 \<or> c = 160 \<or> c = 5760 \<or>
     (8192 \<le> c \<and> c \<le> 8202) \<or> c = 8232 \<or> c = 8233 \<or> c = 8239 \<or> c = 8287 \<or> c = 12288"

definition strip :: "pystr \<Rightarrow> pystr" where
  "strip s = rev (dropWhile isspace (rev (dropWhile isspace s)))"

subsection \<open>Subscripts and the \<open>strip\<close> method on objects\<close>

text \<open>
  \<open>obj[key]\<close> with a string key: only a dict accepts it, and a missing key raises
  \<open>KeyError\<close>, whose \<open>str\<close> is the key in quotes (the keys used are plain words).
\<close>

definition getitem_key :: "pyval \<Rightarrow> pystr \<Rightarrow> pyexc + pyval" where
  "getitem_key obj key =
     (case obj of
        PDict items \<Rightarrow>
          (case map_of items key of
             Some v \<Rightarrow> Inr v
           | None \<Rightarrow> Inl (KeyError ([39] @ key @ [39])))
      | _ \<Rightarrow> Inl TypeError)"

text \<open>
  \<open>obj[0]\<close>: the first element of a list or the first character of a string,
  \<open>IndexError\<close> when empty; a dict decoded from JSON has string keys only, so \<open>0\<close> is
  a missing key there.
\<close>

definition getitem_0 :: "pyval \<Rightarrow> pyexc + pyval" where
  "getitem_0 obj =
     (case obj of
        PList xs \<Rightarrow>
          (case xs of
             [] \<Rightarrow> Inl (IndexError (ascii ''list index out of range''))
           | x # _ \<Rightarrow> Inr x)
      | PStr s \<Rightarrow>
          (case s of
             [] \<Rightarrow> Inl (IndexError (ascii ''string index out of range''))
           | c # _ \<Rightarrow> Inr (PStr [c]))
      | PDict items \<Rightarrow> Inl (KeyError (ascii ''0''))
      | _ \<Rightarrow> Inl TypeError)"

text \<open>\<open>obj.strip()\<close>: only a string has the method.\<close>

definition strip_method :: "pyval \<Rightarrow> pyexc + pystr" where
  "strip_method obj =
     (case obj of
        PStr s \<Rightarrow> Inr (strip s)
      | _ \<Rightarrow> Inl AttributeError)"

text \<open>Sequencing of steps that may raise: the first exception ends the computation.\<close>

definition bind_exc :: "pyexc + 'a \<Rightarrow> ('a \<Rightarrow> pyexc + 'b) \<Rightarrow> pyexc + 'b" where
  "bind_exc r f = (case r of Inl e \<Rightarrow> Inl e | Inr x \<Rightarrow> f x)"

text \<open>\<open>str\<close> of a non-negative integer, as the f-string renders the status code.\<close>

fun str_of_nat :: "nat \<Rightarrow> pystr" where
  "str_of_nat n = (if n < 10 then [48 + n] else str_of_nat (n div 10) @ [48 + n mod 10])"

declare str_of_nat.simps [simp del]

section \<open>Constants of \<open>spellcheck.py\<close>\<close>

definition API_URL :: pystr where
  "API_URL = ascii ''https://api.openai.com/v1/chat/completions''"

text \<open>
  The instruction to the model, in Russian: you are a professional proof-reader; correct
  spelling and punctuation, keeping meaning and style; return only the corrected text
  without explanations.
\<close>

definition SYSTEM_PROMPT :: pystr where
  "SYSTEM_PROMPT =
     [1058, 1099, 32, 1087, 1088, 1086, 1092, 1077, 1089, 1089, 1080, 1086, 1085, 1072, 1083,
      1100, 1085, 1099, 1081, 32, 1082, 1086, 1088, 1088, 1077, 1082, 1090, 1086, 1088, 46, 32,
      1048, 1089, 1087, 1088, 1072, 1074, 1100, 32, 1086, 1088, 1092, 1086, 1075, 1088, 1072,
      1092, 1080, 1102, 32, 1080, 32, 1087, 1091, 1085, 1082, 1090, 1091, 1072, 1094, 1080,
      1102, 44, 32, 1089, 1086, 1093, 1088, 1072, 1085, 1103, 1103, 32, 1089, 1084, 1099, 1089,
      1083, 32, 1080, 32, 1089, 1090, 1080, 1083, 1100, 46, 32, 1042, 1077, 1088, 1085, 1080,
      32, 1090, 1086, 1083, 1100, 1082, 1086, 32, 1080, 1089, 1087, 1088, 1072, 1074, 1083,
      1077, 1085, 1085, 1099, 1081, 32, 1090, 1077, 1082, 1089, 1090, 32, 1073, 1077, 1079, 32,
      1087, 1086, 1103, 1089, 1085, 1077, 1085, 1080, 1081, 46]"

text \<open>The diagnostics of \<open>main\<close>: "error: no text to check." (line 74).\<close>

definition MSG_NO_TEXT :: pystr where
  "MSG_NO_TEXT =
     [1054, 1096, 1080, 1073, 1082, 1072, 58, 32, 1085, 1077, 1090, 32, 1090, 1077, 1082, 1089,
      1090, 1072, 32, 1076, 1083, 1103, 32, 1087, 1088, 1086, 1074, 1077, 1088, 1082, 1080, 46]"

text \<open>"Error: the environment variable OPENAI_API_KEY is not set." (line 79).\<close>

definition MSG_NO_KEY :: pystr where
  "MSG_NO_KEY =
     [1054, 1096, 1080, 1073, 1082, 1072, 58, 32, 1087, 1077, 1088, 1077, 1084, 1077, 1085,
      1085, 1072, 1103, 32, 1086, 1082, 1088, 1091, 1078, 1077, 1085, 1080, 1103, 32, 79, 80,
      69, 78, 65, 73, 95, 65, 80, 73, 95, 75, 69, 89, 32, 1085, 1077, 32, 1079, 1072, 1076,
      1072, 1085, 1072, 46]"

text \<open>The prefixes of the three f-strings: "HTTP error: " (line 85).\<close>

definition MSG_HTTP :: pystr where
  "MSG_HTTP = [1054, 1096, 1080, 1073, 1082, 1072, 32, 72, 84, 84, 80, 58, 32]"

text \<open>"Request error: " (line 88).\<close>

definition MSG_REQUEST :: pystr where
  "MSG_REQUEST =
     [1054, 1096, 1080, 1073, 1082, 1072, 32, 1079, 1072, 1087, 1088, 1086, 1089, 1072, 58, 32]"

text \<open>"API response error: " (line 91).\<close>

definition MSG_API :: pystr where
  "MSG_API =
     [1054, 1096, 1080, 1073, 1082, 1072, 32, 1086, 1090, 1074, 1077, 1090, 1072, 32, 65, 80,
      73, 58, 32]"

section \<open>The request builder\<close>

text \<open>\<open>build_payload\<close> (lines 23-31): a dict literal, nothing else.\<close>

definition build_payload :: "pystr \<Rightarrow> pystr \<Rightarrow> pyfloat \<Rightarrow> pyval" where
  "build_payload text_in model temperature =
     PDict
       [(ascii ''model'', PStr model),
        (ascii ''temperature'', PFloat temperature),
        (ascii ''messages'',
           PList
             [PDict [(ascii ''role'', PStr (ascii ''system'')),
                     (ascii ''content'', PStr SYSTEM_PROMPT)],
              PDict [(ascii ''role'', PStr (ascii ''user'')),
                     (ascii ''content'', PStr text_in)]])]"

section \<open>The world around the program\<close>

text \<open>
  What \<open>requests.post\<close> is called with (lines 35-40): the URL, the headers, the body and
  the timeout in seconds. The body is \<open>json.dumps(payload)\<close>; the serialised text is not
  spelled out, the constructor stands for it.
\<close>

datatype wire = Json_dumps pyval

record request =
  url :: pystr
  headers :: "(pystr \<times> pystr) list"
  data :: wire
  timeout :: nat

text \<open>
  A \<open>requests.Response\<close>, as far as the program reads it: the status code,
  \<open>response.text\<close>, and what \<open>response.json()\<close> does (it returns the decoded object,
  or raises when the body is not JSON).
\<close>

record response =
  status_code :: nat
  body_text :: pystr
  body_json :: "pyexc + pyval"

datatype post_result = Raises pyexc | Returns response

text \<open>
  What \<open>argparse\<close> makes of the command line, for the parser built in \<open>parse_args\<close>
  (lines 46-67): the values of \<open>--text\<close>, \<open>--model\<close> and \<open>--temperature\<close>, each given
  or not (the temperature already converted by \<open>float\<close>); or a request for help
  (\<open>-h\<close>, which \<open>ArgumentParser\<close> adds by default), with the help text it prints; or a
  command line it rejects (an unknown option, a missing value, a temperature that
  \<open>float\<close> refuses), with the usage message it prints.
\<close>

datatype cmdline =
    Options "pystr option" "pystr option" "pyfloat option"
  | Help pystr
  | Rejected pystr

text \<open>
  The world of one run. \<open>stdout_encodes\<close> tells which code points the encoding of
  standard output can encode (the line feed is among them in every encoding in use): a
  write of a text with any other code point raises \<open>UnicodeEncodeError\<close> and puts
  nothing on the stream. The error stream escapes what it cannot encode, so a write to
  it does not fail.
\<close>

record world =
  argv :: cmdline
  stdin :: pystr
  environ :: "pystr \<rightharpoonup> pystr"
  requests_post :: "request \<Rightarrow> post_result"
  stdout_encodes :: "nat \<Rightarrow> bool"

definition encodable :: "world \<Rightarrow> pystr \<Rightarrow> bool" where
  "encodable w s \<longleftrightarrow> list_all (stdout_encodes w) s"

text \<open>UTF-8 encodes every code point but the surrogates.\<close>

definition utf8_encodes :: "nat \<Rightarrow> bool" where
  "utf8_encodes c \<longleftrightarrow> c < 55296 \<or> (57343 < c \<and> c \<le> 1114111)"

text \<open>
  Everything the program does to the world, in order: \<open>Stdout\<close> and \<open>Stderr\<close> carry
  the text written to the stream. \<open>Traceback\<close> is the report of an uncaught
  exception, which the interpreter writes to the error stream.
\<close>

datatype event =
    ReadStdin
  | GetEnv pystr
  | Post request
  | Stdout pystr
  | Stderr pystr
  | Traceback pyexc

fun stdout_of :: "event list \<Rightarrow> pystr" where
  "stdout_of [] = []"
| "stdout_of (Stdout s # es) = s @ stdout_of es"
| "stdout_of (_ # es) = stdout_of es"

fun stderr_of :: "event list \<Rightarrow> pystr" where
  "stderr_of [] = []"
| "stderr_of (Stderr s # es) = s @ stderr_of es"
| "stderr_of (_ # es) = stderr_of es"

fun posts_of :: "event list \<Rightarrow> request list" where
  "posts_of [] = []"
| "posts_of (Post r # es) = r # posts_of es"
| "posts_of (_ # es) = posts_of es"

section \<open>The program\<close>

text \<open>\<open>os.getenv(name)\<close>.\<close>

definition getenv :: "world \<Rightarrow> pystr \<Rightarrow> event list \<times> pystr option" where
  "getenv w name = ([GetEnv name], environ w name)"

text \<open>
  Line 11, run when the module is loaded:
  \<open>DEFAULT_MODEL = os.getenv("OPENAI_MODEL", "gpt-4.1-mini")\<close>.
\<close>

definition load_DEFAULT_MODEL :: "world \<Rightarrow> event list \<times> pystr" where
  "load_DEFAULT_MODEL w =
     (let (ev, v) = getenv w (ascii ''OPENAI_MODEL'')
      in (ev, case v of None \<Rightarrow> ascii ''gpt-4.1-mini'' | Some m \<Rightarrow> m))"

text \<open>\<open>read_stdin\<close> (lines 19-20): \<open>sys.stdin.read().strip()\<close>.\<close>

definition read_stdin :: "world \<Rightarrow> event list \<times> pystr" where
  "read_stdin w = ([ReadStdin], strip (stdin w))"

text \<open>
  \<open>response.raise_for_status()\<close>: \<open>HTTPError\<close> for a client or server error status
  (400 to 599), nothing otherwise.
\<close>

definition raise_for_status :: "response \<Rightarrow> pyexc + unit" where
  "raise_for_status r =
     (if 400 \<le> status_code r \<and> status_code r < 600
      then Inl (HTTPError (status_code r) (body_text r))
      else Inr ())"

text \<open>
  The call of line 40, \<open>requests.post(API_URL, headers=headers, data=json.dumps(payload),
  timeout=60)\<close>, with the headers of lines 35-38 and the payload of line 39.
\<close>

definition post_request :: "pystr \<Rightarrow> pystr \<Rightarrow> pystr \<Rightarrow> pyfloat \<Rightarrow> request" where
  "post_request text_in api_key model temperature =
     \<lparr>url = API_URL,
      headers = [(ascii ''Authorization'', ascii ''Bearer '' @ api_key),
                 (ascii ''Content-Type'', ascii ''application/json'')],
      data = Json_dumps (build_payload text_in model temperature),
      timeout = 60\<rparr>"

text \<open>
  \<open>call_openai\<close> (lines 34-43): the request is sent once; an exception of
  \<open>requests.post\<close>, of \<open>raise_for_status\<close>, of \<open>response.json()\<close> or of a step of
  \<open>data["choices"][0]["message"]["content"].strip()\<close> leaves the function.
\<close>

definition call_openai ::
  "world \<Rightarrow> pystr \<Rightarrow> pystr \<Rightarrow> pystr \<Rightarrow> pyfloat \<Rightarrow> event list \<times> (pyexc + pystr)" where
  "call_openai w text_in api_key model temperature =
     (let req = post_request text_in api_key model temperature
      in ([Post req],
          (case requests_post w req of
             Raises e \<Rightarrow> Inl e
           | Returns resp \<Rightarrow>
               bind_exc (raise_for_status resp) (\<lambda>_.
               bind_exc (body_json resp) (\<lambda>decoded.
               bind_exc (getitem_key decoded (ascii ''choices'')) (\<lambda>choices.
               bind_exc (getitem_0 choices) (\<lambda>choice.
               bind_exc (getitem_key choice (ascii ''message'')) (\<lambda>message.
               bind_exc (getitem_key message (ascii ''content'')) (\<lambda>content.
               strip_method content)))))))))"

text \<open>
  The result of \<open>parser.parse_args()\<close>, with the defaults of lines 50-66: no default for
  the text (\<open>None\<close>), \<open>DEFAULT_MODEL\<close> for the model, \<open>0.0\<close> for the temperature.
\<close>

record namespace =
  ns_text :: "pystr option"
  ns_model :: pystr
  ns_temperature :: pyfloat

text \<open>
  \<open>parse_args\<close> (lines 46-67). Help is written to standard output and ends the process
  with status 0 (when the help text cannot be encoded there, the write raises inside
  \<open>argparse\<close> and the process ends with a traceback and status 1); a rejected command
  line is reported on the error stream and ends the process with status 2.
\<close>

definition parse_args :: "world \<Rightarrow> pystr \<Rightarrow> (event list \<times> int) + namespace" where
  "parse_args w DEFAULT_MODEL =
     (case argv w of
        Options t m temp \<Rightarrow>
          Inr \<lparr>ns_text = t,
               ns_model = (case m of None \<Rightarrow> DEFAULT_MODEL | Some x \<Rightarrow> x),
               ns_temperature = (case temp of None \<Rightarrow> 0 | Some x \<Rightarrow> x)\<rparr>
      | Help h \<Rightarrow>
          if encodable w h then Inl ([Stdout h], 0)
          else Inl ([Traceback UnicodeEncodeError], 1)
      | Rejected u \<Rightarrow> Inl ([Stderr u], 2))"

text \<open>
  Line 72, \<open>args.text or read_stdin()\<close>: the argument when it is a non-empty string;
  otherwise (\<open>None\<close> or the empty string) \<open>read_stdin\<close> is called.
\<close>

definition resolve_text :: "world \<Rightarrow> pystr option \<Rightarrow> event list \<times> pystr" where
  "resolve_text w t =
     (case t of
        Some x \<Rightarrow> if x \<noteq> [] then ([], x) else read_stdin w
      | None \<Rightarrow> read_stdin w)"

text \<open>
  \<open>main\<close> (lines 70-95), returning the events and the exit status. \<open>not text\<close> holds
  for the empty string, \<open>not api_key\<close> for \<open>None\<close> and for the empty string. The
  handlers are tried in the order of the source. An exception without a handler leaves
  \<open>main\<close>: the interpreter prints the traceback and the status is 1. So does the
  \<open>UnicodeEncodeError\<close> of \<open>print(corrected)\<close> (line 94, after the \<open>try\<close>) when
  the text cannot be encoded for standard output; otherwise \<open>print\<close> writes the text
  and a line feed.
\<close>

definition main :: "world \<Rightarrow> pystr \<Rightarrow> event list \<times> int" where
  "main w DEFAULT_MODEL =
     (case parse_args w DEFAULT_MODEL of
        Inl exit \<Rightarrow> exit
      | Inr args \<Rightarrow>
          (let (ev1, text_in) = resolve_text w (ns_text args)
           in if text_in = [] then (ev1 @ [Stderr (MSG_NO_TEXT @ [10])], 1)
              else
                (let (ev2, api_key) = getenv w (ascii ''OPENAI_API_KEY'')
                 in (case api_key of
                       None \<Rightarrow> (ev1 @ ev2 @ [Stderr (MSG_NO_KEY @ [10])], 1)
                     | Some k \<Rightarrow>
                         if k = [] then (ev1 @ ev2 @ [Stderr (MSG_NO_KEY @ [10])], 1)
                         else
                           (let (ev3, r) =
                                  call_openai w text_in k (ns_model args) (ns_temperature args)
                            in (case r of
                                  Inl (HTTPError sc body) \<Rightarrow>
                                    (ev1 @ ev2 @ ev3 @
                                       [Stderr (MSG_HTTP @ str_of_nat sc @ [32] @ body @ [10])],
                                     1)
                                | Inl (RequestException m) \<Rightarrow>
                                    (ev1 @ ev2 @ ev3 @ [Stderr (MSG_REQUEST @ m @ [10])], 1)
                                | Inl (KeyError m) \<Rightarrow>
                                    (ev1 @ ev2 @ ev3 @ [Stderr (MSG_API @ m @ [10])], 1)
                                | Inl (IndexError m) \<Rightarrow>
                                    (ev1 @ ev2 @ ev3 @ [Stderr (MSG_API @ m @ [10])], 1)
                                | Inl TypeError \<Rightarrow> (ev1 @ ev2 @ ev3 @ [Traceback TypeError], 1)
                                | Inl AttributeError \<Rightarrow>
                                    (ev1 @ ev2 @ ev3 @ [Traceback AttributeError], 1)
                                | Inl UnicodeEncodeError \<Rightarrow>
                                    (ev1 @ ev2 @ ev3 @ [Traceback UnicodeEncodeError], 1)
                                | Inl (OtherException m) \<Rightarrow>
                                    (ev1 @ ev2 @ ev3 @ [Traceback (OtherException m)], 1)
                                | Inr corrected \<Rightarrow>
                                    if encodable w corrected
                                    then (ev1 @ ev2 @ ev3 @ [Stdout (corrected @ [10])], 0)
                                    else (ev1 @ ev2 @ ev3 @ [Traceback UnicodeEncodeError],
                                          1)))))))"

text \<open>
  One run of the script: the module is loaded (line 11), then
  \<open>raise SystemExit(main())\<close> (lines 98-99).
\<close>

definition script :: "world \<Rightarrow> event list \<times> int" where
  "script w =
     (let (ev0, dm) = load_DEFAULT_MODEL w;
          (ev, status) = main w dm
      in (ev0 @ ev, status))"

text \<open>
  The command line of the run parses: \<open>parse_args\<close>, with the default model loaded at
  line 11, returns the namespace \<open>args\<close>.
\<close>

definition parsed :: "world \<Rightarrow> namespace \<Rightarrow> bool" where
  "parsed w args \<longleftrightarrow> parse_args w (snd (load_DEFAULT_MODEL w)) = Inr args"

section \<open>Example runs\<close>

text \<open>
  A world with the given command line, standard input, value of \<open>OPENAI_API_KEY\<close> (no
  other variable is set) and answer of the endpoint to any request; standard output is
  encoded in UTF-8.
\<close>

definition example_world :: "cmdline \<Rightarrow> pystr \<Rightarrow> pystr option \<Rightarrow> post_result \<Rightarrow> world" where
  "example_world c inp key reply =
     \<lparr>argv = c, stdin = inp,
      environ = (\<lambda>name. if name = ascii ''OPENAI_API_KEY'' then key else None),
      requests_post = (\<lambda>_. reply),
      stdout_encodes = utf8_encodes\<rparr>"

text \<open>A response with a JSON body.\<close>

definition json_reply :: "nat \<Rightarrow> pystr \<Rightarrow> pyval \<Rightarrow> post_result" where
  "json_reply sc body v = Returns \<lparr>status_code = sc, body_text = body, body_json = Inr v\<rparr>"

text \<open>The body of a chat completion whose first choice has the given content.\<close>

definition completion :: "pyval \<Rightarrow> pyval" where
  "completion content =
     PDict
       [(ascii ''choices'',
           PList
             [PDict
                [(ascii ''message'',
                    PDict [(ascii ''role'', PStr (ascii ''assistant'')),
                           (ascii ''content'', content)])]])]"

text \<open>
  The runs used below. The text is \<open>Helo wrld\<close>, the key \<open>sk-test\<close>; the endpoint
  answers with the content \<open> Hello, world!\<close> and a line feed.
\<close>

definition text_arg :: cmdline where
  "text_arg = Options (Some (ascii ''Helo wrld'')) None None"

definition good_reply :: post_result where
  "good_reply = json_reply 200 [] (completion (PStr (32 # ascii ''Hello, world!'' @ [10])))"

text \<open>Nothing but blanks on standard input, no text argument, no key.\<close>

definition run_no_text :: world where
  "run_no_text = example_world (Options None None None) [32, 10] None good_reply"

text \<open>A text argument, no key.\<close>

definition run_no_key :: world where
  "run_no_key = example_world text_arg [] None good_reply"

text \<open>A text argument, a key, and a good answer; standard input holds other text.\<close>

definition run_ok :: world where
  "run_ok = example_world text_arg (ascii ''piped'') (Some (ascii ''sk-test'')) good_reply"

text \<open>No text argument: the text comes from standard input, between blanks.\<close>

definition run_piped :: world where
  "run_piped =
     example_world (Options None None None) (32 # ascii ''piped'' @ [10])
       (Some (ascii ''sk-test'')) good_reply"

text \<open>The empty string as text argument (\<open>-t ""\<close>), and text on standard input.\<close>

definition run_empty_arg :: world where
  "run_empty_arg =
     example_world (Options (Some []) None None) (ascii ''piped'') (Some (ascii ''sk-test''))
       good_reply"

text \<open>The endpoint answers 401 with the body \<open>Unauthorized\<close>.\<close>

definition run_401 :: world where
  "run_401 =
     example_world text_arg [] (Some (ascii ''sk-test''))
       (Returns \<lparr>status_code = 401, body_text = ascii ''Unauthorized'',
                 body_json = Inl (RequestException (ascii ''Expecting value''))\<rparr>)"

text \<open>The endpoint answers 503 with the body \<open>Busy\<close>.\<close>

definition run_503 :: world where
  "run_503 =
     example_world text_arg [] (Some (ascii ''sk-test''))
       (Returns \<lparr>status_code = 503, body_text = ascii ''Busy'',
                 body_json = Inl (RequestException (ascii ''Expecting value''))\<rparr>)"

text \<open>
  The endpoint answers 300 (Multiple Choices), which is neither a success nor an error
  status, with a completion as body.
\<close>

definition run_300 :: world where
  "run_300 = example_world text_arg [] (Some (ascii ''sk-test''))
       (json_reply 300 [] (completion (PStr (32 # ascii ''Hello, world!'' @ [10]))))"

text \<open>
  The endpoint answers 200 with a completion whose content is \<open>"ok \ud83d"\<close> in JSON:
  the text ends in a lone surrogate, which UTF-8 cannot encode.
\<close>

definition run_lone_surrogate :: world where
  "run_lone_surrogate =
     example_world text_arg [] (Some (ascii ''sk-test''))
       (json_reply 200 [] (completion (PStr [111, 107, 32, 55357])))"

text \<open>The endpoint answers 200 with \<open>{"error": "overloaded"}\<close>: no \<open>choices\<close>.\<close>

definition run_no_choices :: world where
  "run_no_choices =
     example_world text_arg [] (Some (ascii ''sk-test''))
       (json_reply 200 [] (PDict [(ascii ''error'', PStr (ascii ''overloaded''))]))"

text \<open>
  The endpoint answers 200 with a completion whose content is \<open>null\<close>:
  \<open>{"choices": [{"message": {"role": "assistant", "content": null}}]}\<close>.
\<close>

definition run_null_content :: world where
  "run_null_content =
     example_world text_arg [] (Some (ascii ''sk-test'')) (json_reply 200 [] (completion PNone))"

text \<open>
  A command line that \<open>argparse\<close> rejects, such as \<open>--temperature warm\<close>, and one
  that asks for help, \<open>-h\<close>; the texts stand for what \<open>argparse\<close> prints.
\<close>

definition run_rejected :: world where
  "run_rejected =
     example_world (Rejected (ascii ''usage: spellcheck.py [-h] [-t TEXT] [-m MODEL]''))
       [] (Some (ascii ''sk-test'')) good_reply"

definition run_help :: world where
  "run_help =
     example_world (Help (ascii ''usage: spellcheck.py [-h] [-t TEXT] [-m MODEL]''))
       [] (Some (ascii ''sk-test'')) good_reply"

section \<open>Whitespace is trimmed at both ends\<close>

lemma hd_strip: "strip s \<noteq> [] \<Longrightarrow> \<not> isspace (hd (strip s))"
proof -
  assume ne: "strip s \<noteq> []"
  let ?ys = "dropWhile isspace s"
  have ys: "?ys \<noteq> []"
  proof
    assume a: "?ys = []"
    have "strip s = []" unfolding strip_def a by simp
    with ne show False by simp
  qed
  then have h: "\<not> isspace (hd ?ys)" by (rule hd_dropWhile)
  have "dropWhile isspace (rev ?ys) \<noteq> []" using ne by (simp add: strip_def)
  then have "last (dropWhile isspace (rev ?ys)) = last (rev ?ys)"
    by (metis append_is_Nil_conv last_appendR takeWhile_dropWhile_id)
  also have "\<dots> = hd ?ys" using ys by (simp add: last_rev)
  finally show ?thesis using h ne by (simp add: strip_def hd_rev)
qed

lemma last_strip: "strip s \<noteq> [] \<Longrightarrow> \<not> isspace (last (strip s))"
proof -
  assume ne: "strip s \<noteq> []"
  then have "dropWhile isspace (rev (dropWhile isspace s)) \<noteq> []" by (simp add: strip_def)
  then have "\<not> isspace (hd (dropWhile isspace (rev (dropWhile isspace s))))"
    by (rule hd_dropWhile)
  then show ?thesis using ne by (simp add: strip_def last_rev)
qed

lemma strip_decompose:
  "\<exists>a b. s = a @ strip s @ b \<and> (\<forall>c\<in>set a. isspace c) \<and> (\<forall>c\<in>set b. isspace c)"
proof -
  let ?a = "takeWhile isspace s"
  let ?ys = "dropWhile isspace s"
  let ?b = "rev (takeWhile isspace (rev ?ys))"
  have e: "takeWhile isspace (rev ?ys) @ dropWhile isspace (rev ?ys) = rev ?ys"
    by (rule takeWhile_dropWhile_id)
  have "?ys = rev (rev ?ys)" by simp
  also have "\<dots> = rev (takeWhile isspace (rev ?ys) @ dropWhile isspace (rev ?ys))"
    by (simp only: e)
  also have "\<dots> = rev (dropWhile isspace (rev ?ys)) @ ?b" by (rule rev_append)
  finally have "?ys = strip s @ ?b" by (simp only: strip_def)
  moreover have "s = ?a @ ?ys" by simp
  ultimately have "s = ?a @ strip s @ ?b" by (simp only:)
  moreover have "\<forall>c\<in>set ?a. isspace c" by (auto dest: set_takeWhileD)
  moreover have "\<forall>c\<in>set ?b. isspace c" by (auto dest: set_takeWhileD)
  ultimately show ?thesis by blast
qed

section \<open>The paths through \<open>main\<close>\<close>

lemma stderr_of_append: "stderr_of (xs @ ys) = stderr_of xs @ stderr_of ys"
  by (induction xs rule: stderr_of.induct) simp_all

lemma stdout_of_append: "stdout_of (xs @ ys) = stdout_of xs @ stdout_of ys"
  by (induction xs rule: stdout_of.induct) simp_all

lemma posts_of_append: "posts_of (xs @ ys) = posts_of xs @ posts_of ys"
  by (induction xs rule: posts_of.induct) simp_all

lemma str_of_nat_three_digits:
  assumes "100 \<le> n" and "n < 1000"
  shows "str_of_nat n = [48 + n div 100, 48 + n div 10 mod 10, 48 + n mod 10]"
proof -
  have h1: "\<not> n < 10" and h2: "\<not> n div 10 < 10" and h3: "n div 100 < 10"
    using assms by arith+
  have d: "n div 10 div 10 = n div 100" by (simp add: div_mult2_eq)
  have a: "str_of_nat n = str_of_nat (n div 10) @ [48 + n mod 10]"
    by (simp add: str_of_nat.simps [of n] h1)
  have b: "str_of_nat (n div 10) = str_of_nat (n div 100) @ [48 + n div 10 mod 10]"
    by (simp add: str_of_nat.simps [of "n div 10"] h2 d)
  have c: "str_of_nat (n div 100) = [48 + n div 100]"
    by (simp add: str_of_nat.simps [of "n div 100"] h3)
  show ?thesis by (simp add: a b c)
qed

lemma model_name_neq_key_name: "ascii ''OPENAI_MODEL'' \<noteq> ascii ''OPENAI_API_KEY''"
  by (simp add: ascii_def)

lemma load_events: "fst (load_DEFAULT_MODEL w) = [GetEnv (ascii ''OPENAI_MODEL'')]"
  by (simp add: load_DEFAULT_MODEL_def getenv_def)

lemma script_unfold:
  "script w =
     (GetEnv (ascii ''OPENAI_MODEL'') # fst (main w (snd (load_DEFAULT_MODEL w))),
      snd (main w (snd (load_DEFAULT_MODEL w))))"
  by (simp add: script_def split_def Let_def load_events)

lemma resolve_text_cases:
  "resolve_text w t =
     (if t = None \<or> t = Some [] then ([ReadStdin], strip (stdin w)) else ([], the t))"
  by (simp add: resolve_text_def read_stdin_def split: option.split)

lemma resolve_text_quiet:
  "stderr_of (fst (resolve_text w t)) = [] \<and> stdout_of (fst (resolve_text w t)) = [] \<and>
   posts_of (fst (resolve_text w t)) = [] \<and> (\<forall>k. GetEnv k \<notin> set (fst (resolve_text w t)))"
  by (simp add: resolve_text_cases)

lemma resolve_text_empty_iff:
  "snd (resolve_text w t) = [] \<longleftrightarrow> (t = None \<or> t = Some []) \<and> strip (stdin w) = []"
  by (auto simp: resolve_text_cases)

lemma parsed_Options:
  "parsed w args \<longleftrightarrow>
     (\<exists>t m temp. argv w = Options t m temp \<and>
        args = \<lparr>ns_text = t,
                ns_model = (case m of None \<Rightarrow> snd (load_DEFAULT_MODEL w) | Some x \<Rightarrow> x),
                ns_temperature = (case temp of None \<Rightarrow> 0 | Some x \<Rightarrow> x)\<rparr>)"
  by (cases "argv w") (auto simp: parsed_def parse_args_def)

lemma main_no_text:
  assumes "parsed w args" and "snd (resolve_text w (ns_text args)) = []"
  shows "main w (snd (load_DEFAULT_MODEL w)) =
           (fst (resolve_text w (ns_text args)) @ [Stderr (MSG_NO_TEXT @ [10])], 1)"
  using assms by (simp add: main_def parsed_def split_def)

lemma main_no_key:
  assumes "parsed w args" and "snd (resolve_text w (ns_text args)) \<noteq> []"
    and "environ w (ascii ''OPENAI_API_KEY'') = None \<or>
         environ w (ascii ''OPENAI_API_KEY'') = Some []"
  shows "main w (snd (load_DEFAULT_MODEL w)) =
           (fst (resolve_text w (ns_text args)) @
              [GetEnv (ascii ''OPENAI_API_KEY''), Stderr (MSG_NO_KEY @ [10])], 1)"
  using assms by (auto simp add: main_def parsed_def split_def getenv_def)

text \<open>The events of a run that reaches the client, up to and including the request.\<close>

lemma call_openai_events:
  "fst (call_openai w txt k mo te) = [Post (post_request txt k mo te)]"
  by (simp add: call_openai_def Let_def)

lemma main_call:
  assumes "parsed w args" and "snd (resolve_text w (ns_text args)) = txt" and "txt \<noteq> []"
    and "environ w (ascii ''OPENAI_API_KEY'') = Some k" and "k \<noteq> []"
    and "ev = fst (resolve_text w (ns_text args)) @
              [GetEnv (ascii ''OPENAI_API_KEY''),
               Post (post_request txt k (ns_model args) (ns_temperature args))]"
  shows "main w (snd (load_DEFAULT_MODEL w)) =
           (case snd (call_openai w txt k (ns_model args) (ns_temperature args)) of
              Inl (HTTPError sc body) \<Rightarrow>
                (ev @ [Stderr (MSG_HTTP @ str_of_nat sc @ [32] @ body @ [10])], 1)
            | Inl (RequestException m) \<Rightarrow> (ev @ [Stderr (MSG_REQUEST @ m @ [10])], 1)
            | Inl (KeyError m) \<Rightarrow> (ev @ [Stderr (MSG_API @ m @ [10])], 1)
            | Inl (IndexError m) \<Rightarrow> (ev @ [Stderr (MSG_API @ m @ [10])], 1)
            | Inl TypeError \<Rightarrow> (ev @ [Traceback TypeError], 1)
            | Inl AttributeError \<Rightarrow> (ev @ [Traceback AttributeError], 1)
            | Inl UnicodeEncodeError \<Rightarrow> (ev @ [Traceback UnicodeEncodeError], 1)
            | Inl (OtherException m) \<Rightarrow> (ev @ [Traceback (OtherException m)], 1)
            | Inr corrected \<Rightarrow>
                if encodable w corrected then (ev @ [Stdout (corrected @ [10])], 0)
                else (ev @ [Traceback UnicodeEncodeError], 1))"
  using assms
  by (simp add: main_def parsed_def split_def getenv_def call_openai_events
        split: sum.split pyexc.split)

section \<open>The request builder is as specified\<close>

text \<open>
  C1. For every text, model and temperature, the request that \<open>build_payload\<close> returns
  has the model and the temperature of its arguments under the keys \<open>model\<close> and
  \<open>temperature\<close>, and under \<open>messages\<close> a list of exactly two messages: the first
  with role \<open>system\<close> and the fixed instruction as content, the second with role
  \<open>user\<close> and the input text as content. The function is total and returns a plain
  object: it reads nothing from the world and has no exception to raise.
\<close>

theorem build_payload_request:
  "\<exists>m1 m2.
     getitem_key (build_payload t m temp) (ascii ''model'') = Inr (PStr m) \<and>
     getitem_key (build_payload t m temp) (ascii ''temperature'') = Inr (PFloat temp) \<and>
     getitem_key (build_payload t m temp) (ascii ''messages'') = Inr (PList [m1, m2]) \<and>
     getitem_key m1 (ascii ''role'') = Inr (PStr (ascii ''system'')) \<and>
     getitem_key m1 (ascii ''content'') = Inr (PStr SYSTEM_PROMPT) \<and>
     getitem_key m2 (ascii ''role'') = Inr (PStr (ascii ''user'')) \<and>
     getitem_key m2 (ascii ''content'') = Inr (PStr t)"
  by (simp add: build_payload_def getitem_key_def ascii_def)

section \<open>Facts about the example runs\<close>

lemma parsed_example:
  "parsed (example_world (Options t m temp) inp key reply)
     \<lparr>ns_text = t, ns_model = (case m of None \<Rightarrow> ascii ''gpt-4.1-mini'' | Some x \<Rightarrow> x),
      ns_temperature = (case temp of None \<Rightarrow> 0 | Some x \<Rightarrow> x)\<rparr>"
  using model_name_neq_key_name
  by (simp add: parsed_def parse_args_def example_world_def load_DEFAULT_MODEL_def getenv_def)

lemma example_world_sel:
  "argv (example_world c inp key reply) = c"
  "stdin (example_world c inp key reply) = inp"
  "environ (example_world c inp key reply) (ascii ''OPENAI_API_KEY'') = key"
  "requests_post (example_world c inp key reply) r = reply"
  "stdout_encodes (example_world c inp key reply) = utf8_encodes"
  by (simp_all add: example_world_def)

lemma encodable_examples:
  "encodable (example_world c inp key reply) (ascii ''Hello, world!'')"
  "encodable (example_world c inp key reply)
     (ascii ''usage: spellcheck.py [-h] [-t TEXT] [-m MODEL]'')"
  "\<not> encodable (example_world c inp key reply) [111, 107, 32, 55357]"
  by (simp_all add: encodable_def example_world_sel utf8_encodes_def ascii_def)

lemma strip_examples:
  "strip [32, 10] = []"
  "strip (32 # ascii ''piped'' @ [10]) = ascii ''piped''"
  "strip (ascii ''piped'') = ascii ''piped''"
  "strip (32 # ascii ''Hello, world!'' @ [10]) = ascii ''Hello, world!''"
  by (simp_all add: strip_def isspace_def ascii_def)

lemma text_nonempty: "ascii ''Helo wrld'' \<noteq> []" "ascii ''sk-test'' \<noteq> []" "ascii ''piped'' \<noteq> []"
  by (simp_all add: ascii_def)

section \<open>The driver\<close>

text \<open>
  C4. For every run whose command line parses and whose resolved text is empty (the text
  argument is absent or empty, and standard input is empty once trimmed), the driver
  writes the "no text" diagnostic and a line feed to the error stream, the exit status
  is 1, nothing is written to standard output and no request is sent.
\<close>

theorem no_text_exit:
  assumes "parsed w args" and "snd (resolve_text w (ns_text args)) = []"
  shows "snd (script w) = 1 \<and> stderr_of (fst (script w)) = MSG_NO_TEXT @ [10] \<and>
         stdout_of (fst (script w)) = [] \<and> posts_of (fst (script w)) = []"
  by (simp add: script_unfold main_no_text [OF assms] stderr_of_append stdout_of_append
        posts_of_append resolve_text_quiet)

theorem no_text_exit_witness:
  "snd (resolve_text run_no_text None) = [] \<and>
   snd (script run_no_text) = 1 \<and>
   stderr_of (fst (script run_no_text)) = MSG_NO_TEXT @ [10] \<and>
   stdout_of (fst (script run_no_text)) = [] \<and>
   posts_of (fst (script run_no_text)) = []"
proof -
  let ?a = "\<lparr>ns_text = None, ns_model = ascii ''gpt-4.1-mini'', ns_temperature = 0\<rparr>"
  have p: "parsed run_no_text ?a"
    using parsed_example [of None None None] by (simp add: run_no_text_def)
  have e: "snd (resolve_text run_no_text (ns_text ?a)) = []"
    by (simp add: resolve_text_cases run_no_text_def example_world_sel strip_examples)
  show ?thesis using e no_text_exit [OF p e] by simp
qed

text \<open>
  C5. For every run whose command line parses, whose resolved text is not empty and in
  which \<open>OPENAI_API_KEY\<close> is unset or empty, the driver writes the "missing credential"
  diagnostic and a line feed to the error stream, the exit status is 1, nothing is
  written to standard output and no request is sent.
\<close>

theorem no_key_exit:
  assumes "parsed w args" and "snd (resolve_text w (ns_text args)) \<noteq> []"
    and "environ w (ascii ''OPENAI_API_KEY'') = None \<or>
         environ w (ascii ''OPENAI_API_KEY'') = Some []"
  shows "snd (script w) = 1 \<and> stderr_of (fst (script w)) = MSG_NO_KEY @ [10] \<and>
         stdout_of (fst (script w)) = [] \<and> posts_of (fst (script w)) = []"
  by (simp add: script_unfold main_no_key [OF assms] stderr_of_append stdout_of_append
        posts_of_append resolve_text_quiet)

theorem no_key_exit_witness:
  "snd (resolve_text run_no_key (Some (ascii ''Helo wrld''))) \<noteq> [] \<and>
   environ run_no_key (ascii ''OPENAI_API_KEY'') = None \<and>
   snd (script run_no_key) = 1 \<and>
   stderr_of (fst (script run_no_key)) = MSG_NO_KEY @ [10] \<and>
   stdout_of (fst (script run_no_key)) = [] \<and>
   posts_of (fst (script run_no_key)) = []"
proof -
  let ?a = "\<lparr>ns_text = Some (ascii ''Helo wrld''), ns_model = ascii ''gpt-4.1-mini'',
             ns_temperature = 0\<rparr>"
  have p: "parsed run_no_key ?a"
    using parsed_example [of "Some (ascii ''Helo wrld'')" None None]
    by (simp add: run_no_key_def text_arg_def)
  have e: "snd (resolve_text run_no_key (ns_text ?a)) \<noteq> []"
    by (simp add: resolve_text_cases text_nonempty)
  have k: "environ run_no_key (ascii ''OPENAI_API_KEY'') = None \<or>
           environ run_no_key (ascii ''OPENAI_API_KEY'') = Some []"
    by (simp add: run_no_key_def example_world_sel)
  show ?thesis using e no_key_exit [OF p e k] by (simp add: run_no_key_def example_world_sel)
qed

text \<open>
  C10. The check for an empty text comes before the check for the credential: for every
  run whose command line parses, whose resolved text is empty and in which
  \<open>OPENAI_API_KEY\<close> is unset or empty, the diagnostic written is the "no text" one, and
  the environment is never asked for \<open>OPENAI_API_KEY\<close>.
\<close>

theorem no_text_before_key:
  assumes "parsed w args" and "snd (resolve_text w (ns_text args)) = []"
    and "environ w (ascii ''OPENAI_API_KEY'') = None \<or>
         environ w (ascii ''OPENAI_API_KEY'') = Some []"
  shows "stderr_of (fst (script w)) = MSG_NO_TEXT @ [10] \<and>
         GetEnv (ascii ''OPENAI_API_KEY'') \<notin> set (fst (script w))"
  using model_name_neq_key_name
  by (simp add: script_unfold main_no_text [OF assms(1,2)] stderr_of_append
        resolve_text_quiet)

theorem no_text_before_key_witness:
  "snd (resolve_text run_no_text None) = [] \<and>
   environ run_no_text (ascii ''OPENAI_API_KEY'') = None \<and>
   stderr_of (fst (script run_no_text)) = MSG_NO_TEXT @ [10] \<and>
   GetEnv (ascii ''OPENAI_API_KEY'') \<notin> set (fst (script run_no_text))"
proof -
  let ?a = "\<lparr>ns_text = None, ns_model = ascii ''gpt-4.1-mini'', ns_temperature = 0\<rparr>"
  have p: "parsed run_no_text ?a"
    using parsed_example [of None None None] by (simp add: run_no_text_def)
  have e: "snd (resolve_text run_no_text (ns_text ?a)) = []"
    by (simp add: resolve_text_cases run_no_text_def example_world_sel strip_examples)
  have k: "environ run_no_text (ascii ''OPENAI_API_KEY'') = None \<or>
           environ run_no_text (ascii ''OPENAI_API_KEY'') = Some []"
    by (simp add: run_no_text_def example_world_sel)
  show ?thesis
    using e no_text_before_key [OF p e k] by (simp add: run_no_text_def example_world_sel)
qed

section \<open>The input resolver\<close>

lemma script_no_stdin:
  assumes "parsed w args" and "ReadStdin \<notin> set (fst (resolve_text w (ns_text args)))"
  shows "ReadStdin \<notin> set (fst (script w))"
proof (cases "snd (resolve_text w (ns_text args)) = []")
  case True
  show ?thesis using assms(2) by (simp add: script_unfold main_no_text [OF assms(1) True])
next
  case nonempty: False
  show ?thesis
  proof (cases "environ w (ascii ''OPENAI_API_KEY'') = None \<or>
                environ w (ascii ''OPENAI_API_KEY'') = Some []")
    case True
    show ?thesis
      using assms(2) by (simp add: script_unfold main_no_key [OF assms(1) nonempty True])
  next
    case False
    then obtain k where k: "environ w (ascii ''OPENAI_API_KEY'') = Some k" "k \<noteq> []"
      by auto
    show ?thesis
      using assms(2)
      by (simp add: script_unfold main_call [OF assms(1) refl nonempty k refl]
            split: sum.split pyexc.split)
  qed
qed

text \<open>
  C2, as amended. A text argument that is not the empty string is used as it is,
  blanks included, and standard input is not read, by the resolver or anywhere else in
  the run. When the argument is absent or is the empty string, standard input is read,
  once and to its end, and the text is what it holds without the whitespace at both
  ends.
\<close>

theorem resolve_text_argument_or_stdin:
  "(x \<noteq> [] \<longrightarrow> resolve_text w (Some x) = ([], x)) \<and>
   (parsed w args \<and> ns_text args = Some x \<and> x \<noteq> [] \<longrightarrow> ReadStdin \<notin> set (fst (script w))) \<and>
   (t = None \<or> t = Some [] \<longrightarrow> resolve_text w t = ([ReadStdin], strip (stdin w)))"
proof (intro conjI impI)
  assume "parsed w args \<and> ns_text args = Some x \<and> x \<noteq> []"
  then have p: "parsed w args" and q: "ReadStdin \<notin> set (fst (resolve_text w (ns_text args)))"
    by (simp_all add: resolve_text_cases)
  show "ReadStdin \<notin> set (fst (script w))" by (rule script_no_stdin [OF p q])
qed (simp_all add: resolve_text_cases)

theorem resolve_text_argument_or_stdin_witness:
  "resolve_text run_ok (Some [32, 32]) = ([], [32, 32]) \<and>
   ReadStdin \<notin> set (fst (script run_ok)) \<and>
   resolve_text run_piped None = ([ReadStdin], ascii ''piped'')"
proof -
  let ?a = "\<lparr>ns_text = Some (ascii ''Helo wrld''), ns_model = ascii ''gpt-4.1-mini'',
             ns_temperature = 0\<rparr>"
  have p: "parsed run_ok ?a"
    using parsed_example [of "Some (ascii ''Helo wrld'')" None None]
    by (simp add: run_ok_def text_arg_def)
  have a: "resolve_text run_ok (Some [32, 32]) = ([], [32, 32])"
    using resolve_text_argument_or_stdin [of "[32, 32]" run_ok ?a None] by simp
  have b: "ReadStdin \<notin> set (fst (script run_ok))"
    using p resolve_text_argument_or_stdin [of "ascii ''Helo wrld''" run_ok ?a None]
    by (simp add: text_nonempty)
  have c: "resolve_text run_piped None = ([ReadStdin], ascii ''piped'')"
    using resolve_text_argument_or_stdin [of "[32, 32]" run_piped ?a None]
    by (simp add: run_piped_def example_world_sel strip_examples)
  show ?thesis using a b c by simp
qed

text \<open>
  The claim as the specification states it fails for the empty string: with \<open>-t ""\<close>
  standard input is read and its text is used.
\<close>

theorem empty_argument_reads_stdin:
  "argv run_empty_arg = Options (Some []) None None \<and>
   resolve_text run_empty_arg (Some []) = ([ReadStdin], ascii ''piped'') \<and>
   resolve_text run_empty_arg (Some []) \<noteq> ([], [])"
  by (simp add: run_empty_arg_def example_world_sel resolve_text_cases strip_examples)

section \<open>The completion client\<close>

lemma bind_exc_simps:
  "bind_exc (Inl e) f = Inl e"
  "bind_exc (Inr x) f = f x"
  by (simp_all add: bind_exc_def)

lemma extract_completion:
  "bind_exc (getitem_key (completion c) (ascii ''choices'')) (\<lambda>choices.
   bind_exc (getitem_0 choices) (\<lambda>choice.
   bind_exc (getitem_key choice (ascii ''message'')) (\<lambda>message.
   bind_exc (getitem_key message (ascii ''content'')) f))) = f c"
  by (simp add: completion_def getitem_key_def getitem_0_def bind_exc_def ascii_def)

lemma call_openai_json_reply:
  "sc < 400 \<Longrightarrow>
   snd (call_openai (example_world c inp key (json_reply sc body (completion v))) txt k mo te) =
     strip_method v"
  by (simp add: call_openai_def Let_def example_world_sel json_reply_def raise_for_status_def
        extract_completion bind_exc_simps)

lemma call_openai_Inr:
  assumes "snd (call_openai w txt k mo te) = Inr corrected"
  shows "\<exists>resp decoded choices choice message content.
           requests_post w (post_request txt k mo te) = Returns resp \<and>
           \<not> (400 \<le> status_code resp \<and> status_code resp < 600) \<and>
           body_json resp = Inr decoded \<and>
           getitem_key decoded (ascii ''choices'') = Inr choices \<and>
           getitem_0 choices = Inr choice \<and>
           getitem_key choice (ascii ''message'') = Inr message \<and>
           getitem_key message (ascii ''content'') = Inr (PStr content) \<and>
           corrected = strip content"
  using assms
  by (auto simp: call_openai_def Let_def bind_exc_def raise_for_status_def strip_method_def
        split: post_result.splits sum.splits if_splits pyval.splits)

text \<open>
  C3, as amended. For every run in which the completion client returns and the text it
  returns can be encoded for standard output: that text is the content of the first
  choice of the response without the whitespace at both ends, the driver writes it to
  standard output followed by exactly one line feed (the text itself neither starts nor
  ends in whitespace), and the exit status is 0.
\<close>

theorem success_prints_trimmed_content:
  assumes "parsed w args" and "snd (resolve_text w (ns_text args)) = txt" and "txt \<noteq> []"
    and "environ w (ascii ''OPENAI_API_KEY'') = Some k" and "k \<noteq> []"
    and "snd (call_openai w txt k (ns_model args) (ns_temperature args)) = Inr corrected"
    and "encodable w corrected"
  shows "snd (script w) = 0 \<and> stdout_of (fst (script w)) = corrected @ [10] \<and>
         (corrected = [] \<or> (\<not> isspace (hd corrected) \<and> \<not> isspace (last corrected))) \<and>
         (\<exists>resp decoded choices choice message content a b.
            requests_post w (post_request txt k (ns_model args) (ns_temperature args)) =
              Returns resp \<and>
            body_json resp = Inr decoded \<and>
            getitem_key decoded (ascii ''choices'') = Inr choices \<and>
            getitem_0 choices = Inr choice \<and>
            getitem_key choice (ascii ''message'') = Inr message \<and>
            getitem_key message (ascii ''content'') = Inr (PStr content) \<and>
            corrected = strip content \<and>
            content = a @ corrected @ b \<and> list_all isspace a \<and> list_all isspace b)"
proof -
  have m: "main w (snd (load_DEFAULT_MODEL w)) =
             (fst (resolve_text w (ns_text args)) @
                [GetEnv (ascii ''OPENAI_API_KEY''),
                 Post (post_request txt k (ns_model args) (ns_temperature args))] @
                [Stdout (corrected @ [10])], 0)"
    by (simp add: main_call [OF assms(1-5) refl] assms(6,7))
  have out: "snd (script w) = 0 \<and> stdout_of (fst (script w)) = corrected @ [10]"
    by (simp add: script_unfold m stdout_of_append resolve_text_quiet)
  obtain resp decoded choices choice message content where
    r: "requests_post w (post_request txt k (ns_model args) (ns_temperature args)) =
          Returns resp"
       "body_json resp = Inr decoded"
       "getitem_key decoded (ascii ''choices'') = Inr choices"
       "getitem_0 choices = Inr choice"
       "getitem_key choice (ascii ''message'') = Inr message"
       "getitem_key message (ascii ''content'') = Inr (PStr content)"
       "corrected = strip content"
    using call_openai_Inr [OF assms(6)] by blast
  have ends: "corrected = [] \<or> (\<not> isspace (hd corrected) \<and> \<not> isspace (last corrected))"
    using hd_strip [of content] last_strip [of content] r(7) by blast
  obtain a b where
    d: "content = a @ corrected @ b" "list_all isspace a" "list_all isspace b"
    using strip_decompose [of content] r(7) by (auto simp: list_all_iff)
  from out ends r d show ?thesis by blast
qed

theorem success_prints_trimmed_content_witness:
  "snd (call_openai run_ok (ascii ''Helo wrld'') (ascii ''sk-test'') (ascii ''gpt-4.1-mini'') 0) =
     Inr (ascii ''Hello, world!'') \<and>
   encodable run_ok (ascii ''Hello, world!'') \<and>
   snd (script run_ok) = 0 \<and>
   stdout_of (fst (script run_ok)) = ascii ''Hello, world!'' @ [10]"
proof -
  let ?a = "\<lparr>ns_text = Some (ascii ''Helo wrld''), ns_model = ascii ''gpt-4.1-mini'',
             ns_temperature = 0\<rparr>"
  have p: "parsed run_ok ?a"
    using parsed_example [of "Some (ascii ''Helo wrld'')" None None]
    by (simp add: run_ok_def text_arg_def)
  have t: "snd (resolve_text run_ok (ns_text ?a)) = ascii ''Helo wrld''"
    by (simp add: resolve_text_cases text_nonempty)
  have k: "environ run_ok (ascii ''OPENAI_API_KEY'') = Some (ascii ''sk-test'')"
    by (simp add: run_ok_def example_world_sel)
  have c: "snd (call_openai run_ok (ascii ''Helo wrld'') (ascii ''sk-test'') (ns_model ?a)
                  (ns_temperature ?a)) = Inr (ascii ''Hello, world!'')"
    by (simp add: run_ok_def good_reply_def call_openai_json_reply strip_method_def
          strip_examples)
  have e: "encodable run_ok (ascii ''Hello, world!'')"
    by (simp add: run_ok_def encodable_examples)
  show ?thesis
    using c e success_prints_trimmed_content [OF p t text_nonempty(1) k text_nonempty(2) c e]
    by simp
qed

text \<open>
  The claim as the specification states it, for every run in which the client returns,
  fails where the text cannot be encoded for standard output: the content
  \<open>"ok \ud83d"\<close> ends in a lone surrogate, the client returns it, \<open>print\<close> raises
  \<open>UnicodeEncodeError\<close> outside the \<open>try\<close>, nothing is written to standard output and
  the exit status is 1.
\<close>

theorem unencodable_text_not_printed:
  "snd (call_openai run_lone_surrogate (ascii ''Helo wrld'') (ascii ''sk-test'')
          (ascii ''gpt-4.1-mini'') 0) = Inr [111, 107, 32, 55357] \<and>
   snd (script run_lone_surrogate) = 1 \<and>
   stdout_of (fst (script run_lone_surrogate)) = []"
proof -
  let ?a = "\<lparr>ns_text = Some (ascii ''Helo wrld''), ns_model = ascii ''gpt-4.1-mini'',
             ns_temperature = 0\<rparr>"
  have p: "parsed run_lone_surrogate ?a"
    using parsed_example [of "Some (ascii ''Helo wrld'')" None None]
    by (simp add: run_lone_surrogate_def text_arg_def)
  have t: "snd (resolve_text run_lone_surrogate (ns_text ?a)) = ascii ''Helo wrld''"
    by (simp add: resolve_text_cases text_nonempty)
  have k: "environ run_lone_surrogate (ascii ''OPENAI_API_KEY'') = Some (ascii ''sk-test'')"
    by (simp add: run_lone_surrogate_def example_world_sel)
  have s: "strip [111, 107, 32, 55357] = [111, 107, 32, 55357]"
    by (simp add: strip_def isspace_def)
  have c: "snd (call_openai run_lone_surrogate (ascii ''Helo wrld'') (ascii ''sk-test'')
                  (ascii ''gpt-4.1-mini'') 0) = Inr [111, 107, 32, 55357]"
    by (simp add: run_lone_surrogate_def call_openai_json_reply strip_method_def s)
  have e: "\<not> encodable run_lone_surrogate [111, 107, 32, 55357]"
    by (simp add: run_lone_surrogate_def encodable_examples)
  have "snd (script run_lone_surrogate) = 1 \<and> stdout_of (fst (script run_lone_surrogate)) = []"
    using c e
    by (simp add: script_unfold main_call [OF p t text_nonempty(1) k text_nonempty(2) refl]
          resolve_text_cases text_nonempty)
  with c show ?thesis by simp
qed

text \<open>
  C6, as amended. For every run in which the endpoint answers with an error status (400
  to 599, the statuses for which \<open>raise_for_status\<close> raises), the completion client
  fails with an \<open>HTTPError\<close> that carries the status code and the text of the body;
  the driver writes to the error stream a diagnostic with the three decimal digits of
  that code, a space and that text, nothing to standard output, and the exit status
  is 1.
\<close>

theorem http_error_reported:
  assumes "parsed w args" and "snd (resolve_text w (ns_text args)) = txt" and "txt \<noteq> []"
    and "environ w (ascii ''OPENAI_API_KEY'') = Some k" and "k \<noteq> []"
    and "requests_post w (post_request txt k (ns_model args) (ns_temperature args)) =
           Returns resp"
    and "400 \<le> status_code resp" and "status_code resp < 600"
  shows "snd (call_openai w txt k (ns_model args) (ns_temperature args)) =
           Inl (HTTPError (status_code resp) (body_text resp)) \<and>
         snd (script w) = 1 \<and>
         stderr_of (fst (script w)) =
           MSG_HTTP @
           [48 + status_code resp div 100, 48 + status_code resp div 10 mod 10,
            48 + status_code resp mod 10] @
           [32] @ body_text resp @ [10] \<and>
         stdout_of (fst (script w)) = []"
proof -
  have c: "snd (call_openai w txt k (ns_model args) (ns_temperature args)) =
             Inl (HTTPError (status_code resp) (body_text resp))"
    using assms(6-8)
    by (simp add: call_openai_def Let_def raise_for_status_def bind_exc_simps)
  have d: "str_of_nat (status_code resp) =
             [48 + status_code resp div 100, 48 + status_code resp div 10 mod 10,
              48 + status_code resp mod 10]"
    using assms(7,8) by (intro str_of_nat_three_digits) simp_all
  show ?thesis
    by (simp add: c d script_unfold main_call [OF assms(1-5) refl] stderr_of_append
          stdout_of_append resolve_text_quiet)
qed

theorem http_error_reported_witness:
  "snd (call_openai run_401 (ascii ''Helo wrld'') (ascii ''sk-test'') (ascii ''gpt-4.1-mini'') 0) =
     Inl (HTTPError 401 (ascii ''Unauthorized'')) \<and>
   snd (script run_401) = 1 \<and>
   stderr_of (fst (script run_401)) = MSG_HTTP @ ascii ''401 Unauthorized'' @ [10] \<and>
   stdout_of (fst (script run_401)) = [] \<and>
   snd (script run_503) = 1 \<and>
   stderr_of (fst (script run_503)) = MSG_HTTP @ ascii ''503 Busy'' @ [10] \<and>
   stdout_of (fst (script run_503)) = []"
proof -
  let ?a = "\<lparr>ns_text = Some (ascii ''Helo wrld''), ns_model = ascii ''gpt-4.1-mini'',
             ns_temperature = 0\<rparr>"
  let ?r = "\<lparr>status_code = 401, body_text = ascii ''Unauthorized'',
             body_json = Inl (RequestException (ascii ''Expecting value''))\<rparr>"
  let ?r' = "\<lparr>status_code = 503, body_text = ascii ''Busy'',
              body_json = Inl (RequestException (ascii ''Expecting value''))\<rparr>"
  have p: "parsed run_401 ?a"
    using parsed_example [of "Some (ascii ''Helo wrld'')" None None]
    by (simp add: run_401_def text_arg_def)
  have t: "snd (resolve_text run_401 (ns_text ?a)) = ascii ''Helo wrld''"
    by (simp add: resolve_text_cases text_nonempty)
  have k: "environ run_401 (ascii ''OPENAI_API_KEY'') = Some (ascii ''sk-test'')"
    by (simp add: run_401_def example_world_sel)
  have r: "requests_post run_401
             (post_request (ascii ''Helo wrld'') (ascii ''sk-test'') (ns_model ?a)
                (ns_temperature ?a)) = Returns ?r"
    by (simp add: run_401_def example_world_sel)
  have lo: "400 \<le> status_code ?r" and hi: "status_code ?r < 600" by simp_all
  have p': "parsed run_503 ?a"
    using parsed_example [of "Some (ascii ''Helo wrld'')" None None]
    by (simp add: run_503_def text_arg_def)
  have t': "snd (resolve_text run_503 (ns_text ?a)) = ascii ''Helo wrld''"
    by (simp add: resolve_text_cases text_nonempty)
  have k': "environ run_503 (ascii ''OPENAI_API_KEY'') = Some (ascii ''sk-test'')"
    by (simp add: run_503_def example_world_sel)
  have r': "requests_post run_503
              (post_request (ascii ''Helo wrld'') (ascii ''sk-test'') (ns_model ?a)
                 (ns_temperature ?a)) = Returns ?r'"
    by (simp add: run_503_def example_world_sel)
  have lo': "400 \<le> status_code ?r'" and hi': "status_code ?r' < 600" by simp_all
  have s: "[52, 48, 49, 32] @ ascii ''Unauthorized'' = ascii ''401 Unauthorized''"
          "[53, 48, 51, 32] @ ascii ''Busy'' = ascii ''503 Busy''"
    by (simp_all add: ascii_def)
  have x: "snd (call_openai run_401 (ascii ''Helo wrld'') (ascii ''sk-test'')
                  (ascii ''gpt-4.1-mini'') 0) = Inl (HTTPError 401 (ascii ''Unauthorized'')) \<and>
           snd (script run_401) = 1 \<and>
           stderr_of (fst (script run_401)) =
             MSG_HTTP @ ([52, 48, 49, 32] @ ascii ''Unauthorized'') @ [10] \<and>
           stdout_of (fst (script run_401)) = []"
    using http_error_reported [OF p t text_nonempty(1) k text_nonempty(2) r lo hi] by simp
  have y: "snd (script run_503) = 1 \<and>
           stderr_of (fst (script run_503)) = MSG_HTTP @ ([53, 48, 51, 32] @ ascii ''Busy'') @ [10] \<and>
           stdout_of (fst (script run_503)) = []"
    using http_error_reported [OF p' t' text_nonempty(1) k' text_nonempty(2) r' lo' hi'] by simp
  show ?thesis using x y by (simp only: s)
qed

text \<open>
  The claim as the specification states it, for every status that is not a success,
  fails outside 400 to 599: \<open>raise_for_status\<close> lets the status 300 pass, the client
  goes on to the body and returns its content, and the run ends with status 0 and the
  text on standard output, with no diagnostic.
\<close>

theorem status_300_not_an_error:
  "snd (call_openai run_300 (ascii ''Helo wrld'') (ascii ''sk-test'') (ascii ''gpt-4.1-mini'') 0) =
     Inr (ascii ''Hello, world!'') \<and>
   snd (script run_300) = 0 \<and>
   stdout_of (fst (script run_300)) = ascii ''Hello, world!'' @ [10] \<and>
   stderr_of (fst (script run_300)) = []"
proof -
  let ?a = "\<lparr>ns_text = Some (ascii ''Helo wrld''), ns_model = ascii ''gpt-4.1-mini'',
             ns_temperature = 0\<rparr>"
  have p: "parsed run_300 ?a"
    using parsed_example [of "Some (ascii ''Helo wrld'')" None None]
    by (simp add: run_300_def text_arg_def)
  have t: "snd (resolve_text run_300 (ns_text ?a)) = ascii ''Helo wrld''"
    by (simp add: resolve_text_cases text_nonempty)
  have k: "environ run_300 (ascii ''OPENAI_API_KEY'') = Some (ascii ''sk-test'')"
    by (simp add: run_300_def example_world_sel)
  have c: "snd (call_openai run_300 (ascii ''Helo wrld'') (ascii ''sk-test'')
                  (ascii ''gpt-4.1-mini'') 0) = Inr (ascii ''Hello, world!'')"
    by (simp add: run_300_def call_openai_json_reply strip_method_def strip_examples)
  have e: "encodable run_300 (ascii ''Hello, world!'')"
    by (simp add: run_300_def encodable_examples)
  have "snd (script run_300) = 0 \<and>
        stdout_of (fst (script run_300)) = ascii ''Hello, world!'' @ [10] \<and>
        stderr_of (fst (script run_300)) = []"
    using c e
    by (simp add: script_unfold main_call [OF p t text_nonempty(1) k text_nonempty(2) refl]
          resolve_text_cases text_nonempty)
  with c show ?thesis by simp
qed

text \<open>
  A missing key or an empty list of choices is reported with the "API response"
  diagnostic: the handler of lines 90-92.
\<close>

lemma missing_structure_reported:
  assumes "parsed w args" and "snd (resolve_text w (ns_text args)) = txt" and "txt \<noteq> []"
    and "environ w (ascii ''OPENAI_API_KEY'') = Some k" and "k \<noteq> []"
    and "snd (call_openai w txt k (ns_model args) (ns_temperature args)) = Inl e"
    and "e = KeyError m \<or> e = IndexError m"
  shows "snd (script w) = 1 \<and> stderr_of (fst (script w)) = MSG_API @ m @ [10] \<and>
         stdout_of (fst (script w)) = []"
  using assms(7)
  by (auto simp: assms(6) script_unfold main_call [OF assms(1-5) refl] stderr_of_append
        stdout_of_append resolve_text_quiet)

lemma missing_choices_run:
  "snd (script run_no_choices) = 1 \<and>
   stderr_of (fst (script run_no_choices)) = MSG_API @ [39] @ ascii ''choices'' @ [39] @ [10]"
proof -
  let ?a = "\<lparr>ns_text = Some (ascii ''Helo wrld''), ns_model = ascii ''gpt-4.1-mini'',
             ns_temperature = 0\<rparr>"
  have p: "parsed run_no_choices ?a"
    using parsed_example [of "Some (ascii ''Helo wrld'')" None None]
    by (simp add: run_no_choices_def text_arg_def)
  have t: "snd (resolve_text run_no_choices (ns_text ?a)) = ascii ''Helo wrld''"
    by (simp add: resolve_text_cases text_nonempty)
  have k: "environ run_no_choices (ascii ''OPENAI_API_KEY'') = Some (ascii ''sk-test'')"
    by (simp add: run_no_choices_def example_world_sel)
  have g: "getitem_key (PDict [(ascii ''error'', PStr (ascii ''overloaded''))]) (ascii ''choices'')
             = Inl (KeyError ([39] @ ascii ''choices'' @ [39]))"
    by (simp add: getitem_key_def ascii_def)
  have c: "snd (call_openai run_no_choices (ascii ''Helo wrld'') (ascii ''sk-test'') (ns_model ?a)
                  (ns_temperature ?a)) = Inl (KeyError ([39] @ ascii ''choices'' @ [39]))"
    by (simp add: run_no_choices_def call_openai_def Let_def example_world_sel json_reply_def
          raise_for_status_def bind_exc_simps g)
  show ?thesis
    using missing_structure_reported [OF p t text_nonempty(1) k text_nonempty(2) c] by simp
qed

text \<open>
  C7 does not hold of the code. At a response of status 200 whose first choice has the
  content \<open>null\<close>, \<open>content.strip()\<close> raises \<open>AttributeError\<close>; \<open>main\<close> has handlers for
  \<open>KeyError\<close> and \<open>IndexError\<close> only, so the exception leaves \<open>main\<close>: the run ends
  with a traceback and status 1, and the "API response" diagnostic is not written.
\<close>

theorem null_content_not_reported:
  "snd (call_openai run_null_content (ascii ''Helo wrld'') (ascii ''sk-test'')
          (ascii ''gpt-4.1-mini'') 0) = Inl AttributeError \<and>
   script run_null_content =
     ([GetEnv (ascii ''OPENAI_MODEL''), GetEnv (ascii ''OPENAI_API_KEY''),
       Post (post_request (ascii ''Helo wrld'') (ascii ''sk-test'') (ascii ''gpt-4.1-mini'') 0),
       Traceback AttributeError], 1) \<and>
   stderr_of (fst (script run_null_content)) = []"
proof -
  let ?a = "\<lparr>ns_text = Some (ascii ''Helo wrld''), ns_model = ascii ''gpt-4.1-mini'',
             ns_temperature = 0\<rparr>"
  have p: "parsed run_null_content ?a"
    using parsed_example [of "Some (ascii ''Helo wrld'')" None None]
    by (simp add: run_null_content_def text_arg_def)
  have t: "snd (resolve_text run_null_content (ns_text ?a)) = ascii ''Helo wrld''"
    by (simp add: resolve_text_cases text_nonempty)
  have k: "environ run_null_content (ascii ''OPENAI_API_KEY'') = Some (ascii ''sk-test'')"
    by (simp add: run_null_content_def example_world_sel)
  have c: "snd (call_openai run_null_content (ascii ''Helo wrld'') (ascii ''sk-test'')
                  (ns_model ?a) (ns_temperature ?a)) = Inl AttributeError"
    by (simp add: run_null_content_def call_openai_json_reply strip_method_def)
  have s: "script run_null_content =
             ([GetEnv (ascii ''OPENAI_MODEL''), GetEnv (ascii ''OPENAI_API_KEY''),
               Post (post_request (ascii ''Helo wrld'') (ascii ''sk-test'')
                       (ascii ''gpt-4.1-mini'') 0),
               Traceback AttributeError], 1)"
    using c
    by (simp add: script_unfold main_call [OF p t text_nonempty(1) k text_nonempty(2) refl]
          resolve_text_cases text_nonempty)
  show ?thesis using c by (simp add: s)
qed

text \<open>
  C8. A call of the completion client sends exactly one request: a POST to the fixed
  URL, which is an \<open>https\<close> one, with the bearer credential and the JSON content type
  as headers, a timeout of 60, and the serialised payload of the request builder as
  body. Nothing is sent again: a whole run holds at most one request.
\<close>

theorem one_request_per_call:
  "fst (call_openai w txt k mo te) = [Post (post_request txt k mo te)] \<and>
   url (post_request txt k mo te) = API_URL \<and>
   take 8 API_URL = ascii ''https://'' \<and>
   headers (post_request txt k mo te) =
     [(ascii ''Authorization'', ascii ''Bearer '' @ k),
      (ascii ''Content-Type'', ascii ''application/json'')] \<and>
   timeout (post_request txt k mo te) = 60 \<and>
   data (post_request txt k mo te) = Json_dumps (build_payload txt mo te) \<and>
   length (posts_of (fst (script w))) \<le> 1"
proof -
  have "length (posts_of (fst (script w))) \<le> 1"
  proof (cases "argv w")
    case (Options t m temp)
    then obtain args where p: "parsed w args" by (auto simp: parsed_Options)
    show ?thesis
    proof (cases "snd (resolve_text w (ns_text args)) = []")
      case True
      show ?thesis
        by (simp add: script_unfold main_no_text [OF p True] posts_of_append resolve_text_quiet)
    next
      case nonempty: False
      show ?thesis
      proof (cases "environ w (ascii ''OPENAI_API_KEY'') = None \<or>
                    environ w (ascii ''OPENAI_API_KEY'') = Some []")
        case True
        show ?thesis
          by (simp add: script_unfold main_no_key [OF p nonempty True] posts_of_append
                resolve_text_quiet)
      next
        case False
        then obtain k where k: "environ w (ascii ''OPENAI_API_KEY'') = Some k" "k \<noteq> []"
          by auto
        show ?thesis
          by (simp add: script_unfold main_call [OF p refl nonempty k refl] posts_of_append
                resolve_text_quiet split: sum.split pyexc.split)
      qed
    qed
  next
    case (Help h)
    then show ?thesis by (simp add: script_unfold main_def parse_args_def)
  next
    case (Rejected u)
    then show ?thesis by (simp add: script_unfold main_def parse_args_def)
  qed
  moreover have "take 8 API_URL = ascii ''https://''" by (simp add: API_URL_def ascii_def)
  ultimately show ?thesis by (simp add: call_openai_events post_request_def)
qed

section \<open>Exit status and standard output\<close>

text \<open>
  C9, as amended. For every run whose command line parses, either the exit status is 0
  and standard output holds the text returned by the completion client (called with the
  key of the environment) and a line feed, or the exit status is 1 and nothing is
  written to standard output.
\<close>

theorem no_partial_success:
  assumes "parsed w args"
  shows "(snd (script w) = 0 \<and>
          (\<exists>k corrected.
             environ w (ascii ''OPENAI_API_KEY'') = Some k \<and>
             snd (call_openai w (snd (resolve_text w (ns_text args))) k (ns_model args)
                    (ns_temperature args)) = Inr corrected \<and>
             stdout_of (fst (script w)) = corrected @ [10])) \<or>
         (snd (script w) = 1 \<and> stdout_of (fst (script w)) = [])"
proof (cases "snd (resolve_text w (ns_text args)) = []")
  case True
  show ?thesis
    by (simp add: script_unfold main_no_text [OF assms True] stdout_of_append
          resolve_text_quiet)
next
  case nonempty: False
  show ?thesis
  proof (cases "environ w (ascii ''OPENAI_API_KEY'') = None \<or>
                environ w (ascii ''OPENAI_API_KEY'') = Some []")
    case True
    show ?thesis
      by (simp add: script_unfold main_no_key [OF assms nonempty True] stdout_of_append
            resolve_text_quiet)
  next
    case False
    then obtain k where k: "environ w (ascii ''OPENAI_API_KEY'') = Some k" "k \<noteq> []"
      by auto
    let ?r = "snd (call_openai w (snd (resolve_text w (ns_text args))) k (ns_model args)
                     (ns_temperature args))"
    show ?thesis
    proof (cases ?r)
      case (Inl e)
      then have "snd (script w) = 1 \<and> stdout_of (fst (script w)) = []"
        by (cases e)
           (simp_all add: script_unfold main_call [OF assms refl nonempty k refl]
              stdout_of_append resolve_text_quiet)
      then show ?thesis by simp
    next
      case (Inr corrected)
      show ?thesis
      proof (cases "encodable w corrected")
        case True
        with Inr have "snd (script w) = 0 \<and> stdout_of (fst (script w)) = corrected @ [10]"
          by (simp add: script_unfold main_call [OF assms refl nonempty k refl]
                stdout_of_append resolve_text_quiet)
        with Inr k(1) show ?thesis by blast
      next
        case False
        with Inr have "snd (script w) = 1 \<and> stdout_of (fst (script w)) = []"
          by (simp add: script_unfold main_call [OF assms refl nonempty k refl]
                stdout_of_append resolve_text_quiet)
        then show ?thesis by simp
      qed
    qed
  qed
qed

theorem no_partial_success_witness:
  "snd (script run_ok) = 0 \<and> stdout_of (fst (script run_ok)) = ascii ''Hello, world!'' @ [10]"
proof -
  let ?a = "\<lparr>ns_text = Some (ascii ''Helo wrld''), ns_model = ascii ''gpt-4.1-mini'',
             ns_temperature = 0\<rparr>"
  have p: "parsed run_ok ?a"
    using parsed_example [of "Some (ascii ''Helo wrld'')" None None]
    by (simp add: run_ok_def text_arg_def)
  have t: "snd (resolve_text run_ok (ns_text ?a)) = ascii ''Helo wrld''"
    by (simp add: resolve_text_cases text_nonempty)
  have k: "environ run_ok (ascii ''OPENAI_API_KEY'') = Some (ascii ''sk-test'')"
    by (simp add: run_ok_def example_world_sel)
  have c: "snd (call_openai run_ok (ascii ''Helo wrld'') k (ascii ''gpt-4.1-mini'') 0) =
             Inr (ascii ''Hello, world!'')" for k
    by (simp add: run_ok_def good_reply_def call_openai_json_reply strip_method_def
          strip_examples)
  have enc: "encodable run_ok (ascii ''Hello, world!'')"
    by (simp add: run_ok_def encodable_examples)
  have e: "snd (script run_ok) = 0"
    by (simp add: script_unfold main_call [OF p t text_nonempty(1) k text_nonempty(2) refl] c
          enc)
  with no_partial_success [OF p] obtain k' corrected where
    r: "snd (call_openai run_ok (snd (resolve_text run_ok (ns_text ?a))) k' (ns_model ?a)
              (ns_temperature ?a)) = Inr corrected"
       "stdout_of (fst (script run_ok)) = corrected @ [10]"
    by auto
  from r(1) have "corrected = ascii ''Hello, world!''" by (simp add: resolve_text_cases text_nonempty c)
  with e r(2) show ?thesis by simp
qed

text \<open>
  The claim as the specification states it, for every run, fails where \<open>argparse\<close> ends
  the process itself: a rejected command line gives exit status 2, and a request for
  help gives exit status 0 with the help text, not a corrected text, on standard output
  (no request was sent).
\<close>

theorem argparse_exits:
  "snd (script run_rejected) = 2 \<and>
   snd (script run_rejected) \<noteq> 0 \<and> snd (script run_rejected) \<noteq> 1 \<and>
   snd (script run_help) = 0 \<and>
   posts_of (fst (script run_help)) = [] \<and>
   stdout_of (fst (script run_help)) = ascii ''usage: spellcheck.py [-h] [-t TEXT] [-m MODEL]''"
  by (simp add: script_unfold main_def parse_args_def run_rejected_def run_help_def
        example_world_sel encodable_examples)

end
